theory Spec2Isabelle
  imports Complex_Main
begin

section \<open>The stock market game of \<^verbatim>\<open>bot.py\<close>\<close>

text \<open>
  The bot keeps two process-wide dictionaries, \<^verbatim>\<open>users_data\<close> (the ledger) and
  \<^verbatim>\<open>stocks_data\<close> (the catalog), and two JSON files that mirror them. Every command
  handler reads and mutates the dictionaries and then calls \<^verbatim>\<open>save_data()\<close>.

  Conventions of the embedding:
  \<^item> The value of a Python \<^verbatim>\<open>float\<close> is an exact \<open>real\<close>: rounding, infinities and NaN
    of IEEE arithmetic are outside the model. Share counts are Python's unbounded
    \<^verbatim>\<open>int\<close>, here \<open>int\<close>. Converting an \<^verbatim>\<open>int\<close> to a \<^verbatim>\<open>float\<close> raises
    \<^verbatim>\<open>OverflowError\<close> beyond the range of a \<^verbatim>\<open>float\<close>, and that is in the model: a
    share count is typed by the user, so the orders reach it.
  \<^item> A current price is an \<^verbatim>\<open>int\<close> (the mock generator's first price, \<^verbatim>\<open>hash % 1000\<close>) or
    a \<^verbatim>\<open>float\<close> (every other source), and the record keeps which, since multiplying a
    \<^verbatim>\<open>float\<close> by a share count converts the count and multiplying an \<^verbatim>\<open>int\<close> does not.
    The balance is a \<^verbatim>\<open>float\<close> on every path: it starts as \<^verbatim>\<open>10000.0\<close> and only has numbers
    added to or subtracted from it. Numbers that are only stored or shown (history,
    transactions, replies) are kept by value.
  \<^item> A dictionary is a map. A stock record may lack any of its keys (the mock generator
    creates a record that has \<^verbatim>\<open>current_price\<close> only), so its fields are options.
  \<^item> What a handler cannot compute from the dictionaries is an argument: the clock reading,
    the outcome of each file write, the answer of the quote provider, the random number,
    Python's per-process string hash, and the JSON encoder and decoder.
  \<^item> A handler returns the message it sends, or the exception that escapes it, together
    with the state it leaves behind.
\<close>

subsection \<open>Data\<close>

datatype tx_type = TBuy | TSell

record transaction =
  tx_type :: tx_type
  tx_symbol :: string
  tx_shares :: int
  tx_price :: real
  tx_total :: real
  tx_timestamp :: string

record account =
  balance :: real
  portfolio :: "string \<rightharpoonup> int"
  transactions :: "transaction list"

record hist_entry =
  h_time :: string
  h_price :: real

text \<open>A Python number: an \<^verbatim>\<open>int\<close> or a \<^verbatim>\<open>float\<close>, and its value.\<close>

datatype pynum = PInt int | PFloat real

fun num_val :: "pynum \<Rightarrow> real" where
  "num_val (PInt n) = real_of_int n"
| "num_val (PFloat x) = x"

record stock =
  current_price :: "pynum option"
  history :: "hist_entry list option"
  percent_change :: "real option"

type_synonym users = "string \<rightharpoonup> account"
type_synonym stocks = "string \<rightharpoonup> stock"

text \<open>
  The in-memory dictionaries and the two files. \<open>'f\<close> is the type of a file's content;
  \<open>None\<close> is a file that does not exist.
\<close>

record 'f state =
  users_data :: users
  stocks_data :: stocks
  users_file :: "'f option"
  stocks_file :: "'f option"

text \<open>
  \<^verbatim>\<open>json.dump\<close> and \<^verbatim>\<open>json.load\<close> at the two types they are used at. A decoder
  that returns \<open>None\<close> raises.
\<close>

record 'f json =
  dump_users :: "users \<Rightarrow> 'f"
  load_users :: "'f \<Rightarrow> users option"
  dump_stocks :: "stocks \<Rightarrow> 'f"
  load_stocks :: "'f \<Rightarrow> stocks option"

text \<open>
  One \<^verbatim>\<open>with open(name, 'w') as f: json.dump(obj, f)\<close> either completes, or \<^verbatim>\<open>open\<close>
  raises and the file is untouched, or the write raises after \<^verbatim>\<open>open\<close> has truncated the
  file, which then holds whatever had been written.
\<close>

datatype 'f write_outcome = Write_Ok | Open_Fails | Dump_Fails 'f

text \<open>
  What one handler run observes of the world: \<^verbatim>\<open>datetime.datetime.now().isoformat()\<close>,
  the outcome of the two writes of \<^verbatim>\<open>save_data\<close>, the result of \<^verbatim>\<open>fetch_stock_price\<close>
  (\<open>None\<close> is Python's \<^verbatim>\<open>None\<close>: the function catches every exception itself),
  \<^verbatim>\<open>random.random()\<close> and the built-in \<^verbatim>\<open>hash\<close> on strings.
\<close>

record 'f env =
  now :: string
  users_write :: "'f write_outcome"
  stocks_write :: "'f write_outcome"
  quote :: "real option"
  random :: real
  str_hash :: "string \<Rightarrow> int"

datatype py_error = OSError | KeyError | OverflowError

datatype reply =
    Not_Registered
  | Already_Registered
  | Welcome real
  | Not_Tracked string
  | Must_Buy_At_Least_One
  | Must_Sell_At_Least_One
  | Not_Enough_Money real real
  | Not_Enough_Shares int string
  | Purchase_Successful string int real real real
  | Sale_Successful string int real real real
  | Added_Stock string real

datatype outcome = Sent reply | Raised py_error

subsection \<open>Constants and string helpers\<close>

definition DEFAULT_STARTING_BALANCE :: real where
  "DEFAULT_STARTING_BALANCE = 10000"

text \<open>
  The conversion of an \<^verbatim>\<open>int\<close> to a \<^verbatim>\<open>float\<close> rounds to the nearest \<^verbatim>\<open>float\<close> and raises
  \<^verbatim>\<open>OverflowError\<close> when that is beyond the largest one, \<open>2^1024 - 2^971\<close>: from
  \<open>2^1024 - 2^970\<close> on in absolute value. \<open>None\<close> is the exception. The same conversion
  runs when an \<^verbatim>\<open>int\<close> meets a \<^verbatim>\<open>float\<close> in \<^verbatim>\<open>*\<close>, \<^verbatim>\<open>+\<close> or \<^verbatim>\<open>-\<close> and when an \<^verbatim>\<open>int\<close> is
  formatted with \<^verbatim>\<open>,.2f\<close>; a \<^verbatim>\<open>float\<close> is not converted.
\<close>

definition FLOAT_LIMIT :: int where
  "FLOAT_LIMIT = 2 ^ 1024 - 2 ^ 970"

definition to_float :: "int \<Rightarrow> real option" where
  "to_float n = (if FLOAT_LIMIT \<le> \<bar>n\<bar> then None else Some (real_of_int n))"

fun as_float :: "pynum \<Rightarrow> real option" where
  "as_float (PInt n) = to_float n"
| "as_float (PFloat x) = Some x"

text \<open>
  \<^verbatim>\<open>price * shares\<close> with an \<^verbatim>\<open>int\<close> share count: exact for an \<^verbatim>\<open>int\<close> price; for a
  \<^verbatim>\<open>float\<close> price the share count is converted first.
\<close>

fun py_mul :: "pynum \<Rightarrow> int \<Rightarrow> pynum option" where
  "py_mul (PInt p) shares = Some (PInt (p * shares))"
| "py_mul (PFloat x) shares =
     (case to_float shares of None \<Rightarrow> None | Some f \<Rightarrow> Some (PFloat (x * f)))"

text \<open>
  \<^verbatim>\<open>str.upper\<close> on ASCII text: a letter \<^verbatim>\<open>a\<close> to \<^verbatim>\<open>z\<close> (codes 97 to 122) loses bit 5,
  which subtracts 32; other bytes are left as they are.
\<close>

definition upper_char :: "char \<Rightarrow> char" where
  "upper_char c =
     (let n = (of_char c :: nat)
      in if 97 \<le> n \<and> n \<le> 122
         then Char (digit0 c) (digit1 c) (digit2 c) (digit3 c) (digit4 c) False (digit6 c) (digit7 c)
         else c)"

definition upper :: "string \<Rightarrow> string" where
  "upper s = map upper_char s"

subsection \<open>Persistence\<close>

text \<open>
  \<^verbatim>\<open>save_data\<close> writes the users file, then the stocks file, with no exception handler:
  the first failing write ends the function with the exception.
\<close>

definition save_data :: "'f json \<Rightarrow> 'f env \<Rightarrow> 'f state \<Rightarrow> py_error option \<times> 'f state" where
  "save_data j e s =
     (case users_write e of
        Open_Fails \<Rightarrow> (Some OSError, s)
      | Dump_Fails part \<Rightarrow> (Some OSError, s\<lparr>users_file := Some part\<rparr>)
      | Write_Ok \<Rightarrow>
          (let s1 = s\<lparr>users_file := Some (dump_users j (users_data s))\<rparr>
           in case stocks_write e of
                Open_Fails \<Rightarrow> (Some OSError, s1)
              | Dump_Fails part \<Rightarrow> (Some OSError, s1\<lparr>stocks_file := Some part\<rparr>)
              | Write_Ok \<Rightarrow>
                  (None, s1\<lparr>stocks_file := Some (dump_stocks j (stocks_data s1))\<rparr>)))"

text \<open>
  \<^verbatim>\<open>load_data\<close> reads each file that exists; any exception while reading one resets that
  dictionary to \<^verbatim>\<open>{}\<close>. A file that does not exist leaves its dictionary as it is.
\<close>

definition load_data :: "'f json \<Rightarrow> 'f state \<Rightarrow> 'f state" where
  "load_data j s =
     (let s1 = (case users_file s of
                  None \<Rightarrow> s
                | Some t \<Rightarrow> (case load_users j t of
                               Some u \<Rightarrow> s\<lparr>users_data := u\<rparr>
                             | None \<Rightarrow> s\<lparr>users_data := Map.empty\<rparr>))
      in case stocks_file s1 of
           None \<Rightarrow> s1
         | Some t \<Rightarrow> (case load_stocks j t of
                        Some c \<Rightarrow> s1\<lparr>stocks_data := c\<rparr>
                      | None \<Rightarrow> s1\<lparr>stocks_data := Map.empty\<rparr>))"

text \<open>The tail of every mutating handler: save, then send the reply.\<close>

definition save_then_send :: "'f json \<Rightarrow> 'f env \<Rightarrow> 'f state \<Rightarrow> reply \<Rightarrow> outcome \<times> 'f state" where
  "save_then_send j e s r =
     (case save_data j e s of
        (Some err, s') \<Rightarrow> (Raised err, s')
      | (None, s') \<Rightarrow> (Sent r, s'))"

subsection \<open>The ledger commands\<close>

text \<open>The account that \<^verbatim>\<open>register\<close> creates.\<close>

definition fresh_account :: account where
  "fresh_account =
     \<lparr>balance = DEFAULT_STARTING_BALANCE, portfolio = Map.empty, transactions = []\<rparr>"


text \<open>
  \<^verbatim>\<open>stocks_data[symbol].get("current_price", 0)\<close> for a tracked symbol, as a Python number
  (the default is the \<^verbatim>\<open>int\<close> 0) and by value.
\<close>

definition price_of :: "stock \<Rightarrow> pynum" where
  "price_of st = (case current_price st of None \<Rightarrow> PInt 0 | Some p \<Rightarrow> p)"

definition price_or_zero :: "stock \<Rightarrow> real" where
  "price_or_zero st = num_val (price_of st)"

text \<open>
  \<^verbatim>\<open>buy\<close>. After the three validations, \<^verbatim>\<open>price * shares\<close> can raise. A refusal formats
  the total with \<^verbatim>\<open>,.2f\<close>, and an accepted order subtracts the total from the
  \<^verbatim>\<open>float\<close> balance: either converts an \<^verbatim>\<open>int\<close> total and can raise, before anything
  is changed or sent. The comparison of the balance with the total is exact in Python
  for \<^verbatim>\<open>int\<close> and \<^verbatim>\<open>float\<close> alike. The success reply also formats the price, whose
  conversion cannot fail once that of the total has succeeded, as the total of at least
  one share is no smaller in absolute value.
\<close>

definition buy :: "'f json \<Rightarrow> 'f env \<Rightarrow> 'f state \<Rightarrow> string \<Rightarrow> string \<Rightarrow> int \<Rightarrow> outcome \<times> 'f state" where
  "buy j e s user_id symbol0 shares =
     (let symbol = upper symbol0 in
      case users_data s user_id of
        None \<Rightarrow> (Sent Not_Registered, s)
      | Some acct \<Rightarrow>
          (case stocks_data s symbol of
             None \<Rightarrow> (Sent (Not_Tracked symbol), s)
           | Some st \<Rightarrow>
               if shares \<le> 0 then (Sent Must_Buy_At_Least_One, s)
               else
                 let price = price_of st in
                 (case py_mul price shares of
                   None \<Rightarrow> (Raised OverflowError, s)
                 | Some total_cost \<Rightarrow>
                     if balance acct < num_val total_cost
                     then (case as_float total_cost of
                             None \<Rightarrow> (Raised OverflowError, s)
                           | Some shown \<Rightarrow> (Sent (Not_Enough_Money shown (balance acct)), s))
                     else
                       (case as_float total_cost of
                          None \<Rightarrow> (Raised OverflowError, s)
                        | Some cost \<Rightarrow>
                            let owned = (case portfolio acct symbol of None \<Rightarrow> 0 | Some n \<Rightarrow> n);
                                tx = \<lparr>tx_type = TBuy, tx_symbol = symbol, tx_shares = shares,
                                      tx_price = num_val price, tx_total = cost,
                                      tx_timestamp = now e\<rparr>;
                                acct' = \<lparr>balance = balance acct - cost,
                                         portfolio = (portfolio acct)(symbol \<mapsto> owned + shares),
                                         transactions = transactions acct @ [tx]\<rparr>;
                                s1 = s\<lparr>users_data := (users_data s)(user_id \<mapsto> acct')\<rparr>
                            in save_then_send j e s1
                                 (Purchase_Successful symbol shares (num_val price) cost
                                    (balance acct'))))))"

text \<open>
  \<^verbatim>\<open>sell\<close>. The refusals come first and involve no arithmetic. Then \<^verbatim>\<open>price * shares\<close>
  can raise, and so can adding an \<^verbatim>\<open>int\<close> total to the \<^verbatim>\<open>float\<close> balance, which is the
  first mutation: an order that raises changes nothing.
\<close>

definition sell :: "'f json \<Rightarrow> 'f env \<Rightarrow> 'f state \<Rightarrow> string \<Rightarrow> string \<Rightarrow> int \<Rightarrow> outcome \<times> 'f state" where
  "sell j e s user_id symbol0 shares =
     (let symbol = upper symbol0 in
      case users_data s user_id of
        None \<Rightarrow> (Sent Not_Registered, s)
      | Some acct \<Rightarrow>
          (case stocks_data s symbol of
             None \<Rightarrow> (Sent (Not_Tracked symbol), s)
           | Some st \<Rightarrow>
               if shares \<le> 0 then (Sent Must_Sell_At_Least_One, s)
               else
                 (case portfolio acct symbol of
                    None \<Rightarrow> (Sent (Not_Enough_Shares 0 symbol), s)
                  | Some n \<Rightarrow>
                      if n < shares then (Sent (Not_Enough_Shares n symbol), s)
                      else
                        let price = price_of st in
                        (case py_mul price shares of
                          None \<Rightarrow> (Raised OverflowError, s)
                        | Some total_value \<Rightarrow>
                            (case as_float total_value of
                               None \<Rightarrow> (Raised OverflowError, s)
                             | Some gain \<Rightarrow>
                                 let left = n - shares;
                                     tx = \<lparr>tx_type = TSell, tx_symbol = symbol, tx_shares = shares,
                                           tx_price = num_val price, tx_total = gain,
                                           tx_timestamp = now e\<rparr>;
                                     acct' = \<lparr>balance = balance acct + gain,
                                              portfolio =
                                                (if left = 0 then (portfolio acct)(symbol := None)
                                                 else (portfolio acct)(symbol \<mapsto> left)),
                                              transactions = transactions acct @ [tx]\<rparr>;
                                     s1 = s\<lparr>users_data := (users_data s)(user_id \<mapsto> acct')\<rparr>
                                 in save_then_send j e s1
                                      (Sale_Successful symbol shares (num_val price) gain
                                         (balance acct')))))))"

subsection \<open>Prices\<close>

text \<open>
  \<^verbatim>\<open>round(x, 2)\<close>: to the nearest multiple of 0.01, a tie going to the even neighbour.
\<close>

definition round_half_even :: "real \<Rightarrow> int" where
  "round_half_even y =
     (let f = \<lfloor>y\<rfloor>; d = y - of_int f
      in if d < 1 / 2 then f else if 1 / 2 < d then f + 1 else if even f then f else f + 1)"

definition py_round2 :: "real \<Rightarrow> real" where
  "py_round2 x = of_int (round_half_even (x * 100)) / 100"

text \<open>
  \<^verbatim>\<open>generate_mock_price\<close>: the first call for a symbol tracks it with a record that has
  only \<^verbatim>\<open>current_price\<close>, the hash reduced modulo 1000 (Python's \<^verbatim>\<open>%\<close> with a positive
  modulus is never negative, as \<open>mod\<close> on \<open>int\<close>), an \<^verbatim>\<open>int\<close>; later calls perturb the
  current price into a \<^verbatim>\<open>float\<close> and raise \<^verbatim>\<open>KeyError\<close> if the record has none. (The
  perturbation converts an \<^verbatim>\<open>int\<close> price; the \<^verbatim>\<open>int\<close> prices the program creates are below
  1000, and the conversion is taken by value.)
\<close>

definition generate_mock_price :: "'f env \<Rightarrow> stocks \<Rightarrow> string \<Rightarrow> py_error + pynum \<times> stocks" where
  "generate_mock_price e sd symbol =
     (let base_price = PInt (str_hash e symbol mod 1000) in
      case sd symbol of
        None \<Rightarrow>
          Inr (base_price,
               sd(symbol \<mapsto> \<lparr>current_price = Some base_price, history = None, percent_change = None\<rparr>))
      | Some st \<Rightarrow>
          (case current_price st of
             None \<Rightarrow> Inl KeyError
           | Some cur \<Rightarrow>
               let change_percent = (random e - 0.5) * 0.05;
                   new_price = num_val cur * (1 + change_percent)
               in Inr (PFloat (py_round2 new_price), sd)))"

text \<open>
  Live price first, mock price when the provider gives none: the shared opening of
  \<^verbatim>\<open>update_stock_prices\<close> and of \<^verbatim>\<open>add_stock\<close> without a price argument.
\<close>

definition fetch_or_mock :: "'f env \<Rightarrow> stocks \<Rightarrow> string \<Rightarrow> py_error + pynum \<times> stocks" where
  "fetch_or_mock e sd symbol =
     (case quote e of
        Some p \<Rightarrow> Inr (PFloat p, sd)
      | None \<Rightarrow> generate_mock_price e sd symbol)"

text \<open>
  The second half of the loop body of \<^verbatim>\<open>update_stock_prices\<close>: append to the history,
  keep its last 24 entries, set the price and the percent change.
\<close>

definition record_price :: "stock \<Rightarrow> string \<Rightarrow> pynum \<Rightarrow> stock" where
  "record_price st timestamp price =
     (let h = (case history st of None \<Rightarrow> [] | Some h0 \<Rightarrow> h0)
                @ [\<lparr>h_time = timestamp, h_price = num_val price\<rparr>];
          h' = (if length h > 24 then drop (length h - 24) h else h);
          old_price = (case current_price st of None \<Rightarrow> price | Some p \<Rightarrow> p)
      in \<lparr>current_price = Some price,
          history = Some h',
          percent_change =
            Some (if num_val old_price > 0
                  then ((num_val price - num_val old_price) / num_val old_price) * 100
                  else 0)\<rparr>)"

text \<open>
  One iteration of the loop, for one symbol. The \<^verbatim>\<open>try\<close> block logs any exception and
  goes on to the next symbol, so an iteration that raises leaves the catalog as it was.
\<close>

definition refresh_symbol :: "'f env \<Rightarrow> stocks \<Rightarrow> string \<Rightarrow> stocks" where
  "refresh_symbol e sd symbol =
     (case fetch_or_mock e sd symbol of
        Inl err \<Rightarrow> sd
      | Inr (price, sd1) \<Rightarrow>
          (case sd1 symbol of
             None \<Rightarrow> sd
           | Some st \<Rightarrow> sd1(symbol \<mapsto> record_price st (now e) price)))"

text \<open>The same symbol refreshed once per cycle, over several cycles.\<close>

definition refresh_times :: "stocks \<Rightarrow> string \<Rightarrow> 'f env list \<Rightarrow> stocks" where
  "refresh_times sd symbol es = fold (\<lambda>e sd'. refresh_symbol e sd' symbol) es sd"


subsection \<open>Sequences of commands\<close>

text \<open>
  The ledger commands one after the other, as the bot runs them: a handler has no
  \<^verbatim>\<open>await\<close> between its checks and its mutation, so no other handler runs in between.
  Between two commands the catalog may have been rewritten by \<^verbatim>\<open>add_stock\<close> or by the
  refresh task, neither of which touches \<^verbatim>\<open>users_data\<close>; \<open>Catalog_Change\<close> stands for any
  such rewriting.
\<close>

datatype cmd = Register string | Buy string string int | Sell string string int





subsection \<open>Predicates of the statements\<close>

definition writes_ok :: "'f env \<Rightarrow> bool" where
  "writes_ok e \<longleftrightarrow> users_write e = Write_Ok \<and> stocks_write e = Write_Ok"





text \<open>
  The order's arithmetic stays within the range of a \<^verbatim>\<open>float\<close>: the share count when
  the price is a \<^verbatim>\<open>float\<close>, the total when the price is an \<^verbatim>\<open>int\<close>.
\<close>

definition float_range_ok :: "stock \<Rightarrow> int \<Rightarrow> bool" where
  "float_range_ok st shares =
     (case price_of st of
        PFloat x \<Rightarrow> \<bar>shares\<bar> < FLOAT_LIMIT
      | PInt p \<Rightarrow> \<bar>p * shares\<bar> < FLOAT_LIMIT)"

definition owned_shares :: "account \<Rightarrow> string \<Rightarrow> int" where
  "owned_shares a symbol = (case portfolio a symbol of None \<Rightarrow> 0 | Some n \<Rightarrow> n)"

text \<open>The history of a record, empty when the key is missing; the last \<open>n\<close> of a list.\<close>

definition entries :: "stock \<Rightarrow> hist_entry list" where
  "entries st = (case history st of None \<Rightarrow> [] | Some h \<Rightarrow> h)"

definition keep_last :: "nat \<Rightarrow> 'a list \<Rightarrow> 'a list" where
  "keep_last n xs = drop (length xs - n) xs"

definition entry :: "string \<times> real \<Rightarrow> hist_entry" where
  "entry tp = \<lparr>h_time = fst tp, h_price = snd tp\<rparr>"

text \<open>A sequence of (timestamp, price) updates recorded on one stock record.\<close>

definition record_prices :: "stock \<Rightarrow> (string \<times> real) list \<Rightarrow> stock" where
  "record_prices st ups = fold (\<lambda>tp st'. record_price st' (fst tp) (PFloat (snd tp))) ups st"

subsection \<open>Concrete inputs\<close>

text \<open>
  A codec whose file content is the dumped dictionary itself, tagged with its kind, and
  an environment in which nothing fails.
\<close>

definition tagged_json :: "(users + stocks) json" where
  "tagged_json =
     \<lparr>dump_users = Inl,
      load_users = (\<lambda>t. case t of Inl u \<Rightarrow> Some u | Inr c \<Rightarrow> None),
      dump_stocks = Inr,
      load_stocks = (\<lambda>t. case t of Inl u \<Rightarrow> None | Inr c \<Rightarrow> Some c)\<rparr>"

definition calm :: "(users + stocks) env" where
  "calm = \<lparr>now = ''t'', users_write = Write_Ok, stocks_write = Write_Ok,
            quote = None, random = 1 / 2, str_hash = (\<lambda>s. 0)\<rparr>"

definition full_stock :: "real \<Rightarrow> stock" where
  "full_stock p =
     \<lparr>current_price = Some (PFloat p), history = Some [\<lparr>h_time = ''t0'', h_price = p\<rparr>],
      percent_change = Some 0\<rparr>"

definition mock_stock :: "int \<Rightarrow> stock" where
  "mock_stock n = \<lparr>current_price = Some (PInt n), history = None, percent_change = None\<rparr>"

text \<open>
  A state in which \<^verbatim>\<open>u1\<close> has just registered, the catalog is \<open>sd\<close>, and both files
  hold what a save of that state writes.
\<close>

definition demo_state :: "stocks \<Rightarrow> (users + stocks) state" where
  "demo_state sd =
     \<lparr>users_data = [''u1'' \<mapsto> fresh_account], stocks_data = sd,
      users_file = Some (Inl [''u1'' \<mapsto> fresh_account]), stocks_file = Some (Inr sd)\<rparr>"

text \<open>
  Thirty updates, the \<open>n\<close>-th with price \<open>n\<close> and a timestamp of \<open>n\<close> dots, as plain updates
  and as thirty refresh cycles in which the provider answers.
\<close>

definition thirty_updates :: "(string \<times> real) list" where
  "thirty_updates = map (\<lambda>n. (replicate n CHR ''.'', real n)) [1..<31]"

definition thirty_ticks :: "(users + stocks) env list" where
  "thirty_ticks = map (\<lambda>n. calm\<lparr>now := replicate n CHR ''.'', quote := Some (real n)\<rparr>) [1..<31]"


lemmas demo_defs =
  demo_state_def full_stock_def mock_stock_def fresh_account_def calm_def tagged_json_def
  DEFAULT_STARTING_BALANCE_def upper_def upper_char_def price_or_zero_def price_of_def
  owned_shares_def
  writes_ok_def save_then_send_def save_data_def Let_def


section \<open>Properties\<close>

subsection \<open>The range of a float\<close>

text \<open>
  The limit is far above every number of the examples, and \<open>too_many\<close> and its multiples
  are beyond it. The powers are compared, never computed.
\<close>

lemma limit_large: "2 ^ 30 \<le> FLOAT_LIMIT"
proof -
  have one: "(1::int) \<le> 2 ^ 970"
    by (rule one_le_power) simp
  have a: "(2::int) ^ 30 \<le> 2 ^ 970"
    by (rule power_increasing) simp_all
  have b: "(2::int) \<le> 2 ^ 54"
    using power_increasing [of 1 54 "2::int"] by simp
  have "(1024::nat) = 970 + 54" by simp
  then have split: "(2::int) ^ 1024 = 2 ^ 970 * 2 ^ 54"
    by (simp only: power_add)
  have "(2::int) ^ 970 * 2 \<le> 2 ^ 970 * 2 ^ 54"
    using b one by (intro mult_left_mono) linarith+
  then have "(2::int) ^ 970 \<le> 2 ^ 970 * 2 ^ 54 - 2 ^ 970"
    by linarith
  with a show ?thesis
    by (simp only: FLOAT_LIMIT_def split)
qed

lemma below_limit:
  assumes "\<bar>n\<bar> < 1000000000"
  shows "\<bar>n\<bar> < FLOAT_LIMIT"
proof -
  have "(1000000000::int) \<le> 2 ^ 30" by simp
  with limit_large assms show ?thesis by linarith
qed

lemma small_below_limit:
  assumes "n < 1000000000"
  shows "n < FLOAT_LIMIT"
proof -
  have "(1000000000::int) \<le> 2 ^ 30" by simp
  with limit_large assms show ?thesis by linarith
qed


lemma to_float_small:
  assumes "\<bar>n\<bar> < 1000000000"
  shows "to_float n = Some (real_of_int n)"
  using below_limit [OF assms] by (simp add: to_float_def)






subsection \<open>Saving never touches the dictionaries\<close>

lemma save_data_memory:
  "users_data (snd (save_data j e s)) = users_data s \<and> stocks_data (snd (save_data j e s)) = stocks_data s"
  by (simp add: save_data_def Let_def split: write_outcome.splits)

lemma save_data_error: "fst (save_data j e s) = (if writes_ok e then None else Some OSError)"
  by (simp add: save_data_def writes_ok_def Let_def split: write_outcome.splits)

lemma save_then_send_memory:
  "users_data (snd (save_then_send j e s r)) = users_data s \<and> stocks_data (snd (save_then_send j e s r)) = stocks_data s"
  using save_data_memory [of j e s]
  by (cases "save_data j e s") (simp add: save_then_send_def split: option.splits)

lemma save_then_send_outcome:
  "fst (save_then_send j e s r) = (if writes_ok e then Sent r else Raised OSError)"
  using save_data_error [of j e s]
  by (cases "save_data j e s") (auto simp add: save_then_send_def split: option.splits)

subsection \<open>The three ends of an order\<close>

text \<open>
  Once the validations have passed, an order ends in one of three ways: its arithmetic
  leaves the range of a \<^verbatim>\<open>float\<close> and \<^verbatim>\<open>OverflowError\<close> escapes with nothing changed, or
  it is refused with nothing changed, or it is applied in memory and handed to
  \<^verbatim>\<open>save_data\<close>.
\<close>

lemma total_in_range:
  assumes "float_range_ok st shares"
  shows "\<exists>tc. py_mul (price_of st) shares = Some tc
            \<and> num_val tc = price_or_zero st * real_of_int shares
            \<and> as_float tc = Some (price_or_zero st * real_of_int shares)"
  using assms
  by (cases "price_of st") (simp_all add: float_range_ok_def price_or_zero_def to_float_def)


text \<open>
  The success replies also format the price. For a \<^verbatim>\<open>float\<close> price nothing is converted,
  and an \<^verbatim>\<open>int\<close> price converts whenever the total of at least one share did.
\<close>

lemma price_formats:
  assumes "1 \<le> shares" and "py_mul (price_of st) shares = Some tc" and "as_float tc = Some t"
  shows "as_float (price_of st) = Some (price_or_zero st)"
proof (cases "price_of st")
  case (PInt p)
  from assms(1) have "\<bar>p\<bar> * 1 \<le> \<bar>p\<bar> * \<bar>shares\<bar>"
    by (intro mult_left_mono) simp_all
  then have "\<bar>p\<bar> \<le> \<bar>p * shares\<bar>" by (simp add: abs_mult)
  with PInt assms(2,3) show ?thesis
    by (auto simp add: to_float_def price_or_zero_def split: if_splits)
next
  case (PFloat x)
  then show ?thesis by (simp add: price_or_zero_def)
qed

lemma buy_accepted:
  assumes "users_data s user_id = Some acct"
      and "stocks_data s (upper symbol) = Some st"
      and "1 \<le> shares"
      and "price_or_zero st * real_of_int shares \<le> balance acct"
      and "float_range_ok st shares"
  shows "buy j e s user_id symbol shares =
           save_then_send j e
             (s\<lparr>users_data := (users_data s)(user_id \<mapsto>
                  \<lparr>balance = balance acct - price_or_zero st * real_of_int shares,
                   portfolio = (portfolio acct)(upper symbol \<mapsto> owned_shares acct (upper symbol) + shares),
                   transactions = transactions acct @
                     [\<lparr>tx_type = TBuy, tx_symbol = upper symbol, tx_shares = shares,
                       tx_price = price_or_zero st,
                       tx_total = price_or_zero st * real_of_int shares,
                       tx_timestamp = now e\<rparr>]\<rparr>)\<rparr>)
             (Purchase_Successful (upper symbol) shares (price_or_zero st)
                (price_or_zero st * real_of_int shares)
                (balance acct - price_or_zero st * real_of_int shares))"
proof -
  from total_in_range [OF assms(5)] obtain tc where tc: "py_mul (price_of st) shares = Some tc"
    "num_val tc = price_or_zero st * real_of_int shares"
    "as_float tc = Some (price_or_zero st * real_of_int shares)" by blast
  with assms(1-4) show ?thesis
    by (simp add: buy_def Let_def owned_shares_def price_or_zero_def)
qed







subsection \<open>Buying\<close>







subsection \<open>Selling\<close>




text \<open>
  Claim C5. For a registered account, a tracked symbol and \<open>shares \<ge> 1\<close>, when the account
  owns fewer than \<open>shares\<close> of the symbol (0 when the symbol is not in its portfolio) the
  handler replies that the shares are not enough (the spec's \<^verbatim>\<open>InsufficientShares\<close>), the
  reply carries the owned count, and the state is returned as it was.
\<close>

theorem sell_insufficient_shares:
  assumes "users_data s user_id = Some acct"
      and "stocks_data s (upper symbol) = Some st"
      and "1 \<le> shares"
      and "owned_shares acct (upper symbol) < shares"
  shows "sell j e s user_id symbol shares =
           (Sent (Not_Enough_Shares (owned_shares acct (upper symbol)) (upper symbol)), s)"
  using assms by (simp add: sell_def Let_def owned_shares_def split: option.splits)

theorem sell_insufficient_shares_witness:
  "users_data ((demo_state [''AAPL'' \<mapsto> full_stock 150])
                 \<lparr>users_data := [''u1'' \<mapsto> fresh_account\<lparr>portfolio := [''AAPL'' \<mapsto> 3]\<rparr>]\<rparr>) ''u1''
     = Some (fresh_account\<lparr>portfolio := [''AAPL'' \<mapsto> 3]\<rparr>)
   \<and> stocks_data ((demo_state [''AAPL'' \<mapsto> full_stock 150])
                 \<lparr>users_data := [''u1'' \<mapsto> fresh_account\<lparr>portfolio := [''AAPL'' \<mapsto> 3]\<rparr>]\<rparr>)
         (upper ''AAPL'')
     = Some (full_stock 150)
   \<and> (1::int) \<le> 5
   \<and> owned_shares (fresh_account\<lparr>portfolio := [''AAPL'' \<mapsto> 3]\<rparr>) (upper ''AAPL'') < 5
   \<and> sell tagged_json calm
         ((demo_state [''AAPL'' \<mapsto> full_stock 150])
            \<lparr>users_data := [''u1'' \<mapsto> fresh_account\<lparr>portfolio := [''AAPL'' \<mapsto> 3]\<rparr>]\<rparr>)
         ''u1'' ''AAPL'' 5
     = (Sent (Not_Enough_Shares 3 ''AAPL''),
        (demo_state [''AAPL'' \<mapsto> full_stock 150])
          \<lparr>users_data := [''u1'' \<mapsto> fresh_account\<lparr>portfolio := [''AAPL'' \<mapsto> 3]\<rparr>]\<rparr>)"
proof -
  let ?a = "fresh_account\<lparr>portfolio := [''AAPL'' \<mapsto> 3]\<rparr>"
  let ?s = "(demo_state [''AAPL'' \<mapsto> full_stock 150])\<lparr>users_data := [''u1'' \<mapsto> ?a]\<rparr>"
  have h1: "users_data ?s ''u1'' = Some ?a"
    by (simp add: demo_defs)
  have h2: "stocks_data ?s (upper ''AAPL'') = Some (full_stock 150)"
    by (simp add: demo_defs)
  have h3: "(1::int) \<le> 5" by simp
  have h4: "owned_shares ?a (upper ''AAPL'') < 5"
    by (simp add: demo_defs)
  show ?thesis
    using h1 h2 h3 h4 sell_insufficient_shares [OF h1 h2 h3 h4, of tagged_json calm]
    by (simp add: demo_defs)
qed

subsection \<open>Balance and holdings over sequences of commands\<close>












subsection \<open>The price history\<close>

lemma keep_last_append: "keep_last n (keep_last n xs @ ys) = keep_last n (xs @ ys)"
  by (cases "length xs \<le> n") (simp_all add: keep_last_def add.commute)

lemma history_record_price:
  "history (record_price st t p) = Some (keep_last 24 (entries st @ [entry (t, num_val p)]))"
  by (simp add: record_price_def Let_def keep_last_def entries_def entry_def)

lemma entries_record_price:
  "entries (record_price st t p) = keep_last 24 (entries st @ [entry (t, num_val p)])"
  by (simp add: entries_def history_record_price)

lemma entries_record_prices:
  "ups \<noteq> [] \<Longrightarrow> history (record_prices st ups) = Some (keep_last 24 (entries st @ map entry ups))"
proof (induction ups arbitrary: st)
  case Nil
  then show ?case by simp
next
  case (Cons up ups)
  show ?case
  proof (cases "ups = []")
    case True
    then show ?thesis
      by (simp add: record_prices_def history_record_price)
  next
    case False
    from Cons.IH [OF False, of "record_price st (fst up) (PFloat (snd up))"]
    show ?thesis
      by (simp add: record_prices_def entries_record_price keep_last_append)
  qed
qed

lemma history_after_thirty:
  assumes "length ups = 30"
  shows "history (record_prices st ups) = Some (drop 6 (map entry ups))"
proof -
  from assms have "ups \<noteq> []" by auto
  from entries_record_prices [OF this, of st] assms show ?thesis
    by (simp add: keep_last_def)
qed

lemma refresh_symbol_tracked:
  assumes "sd symbol = Some st" and "quote e \<noteq> None \<or> current_price st \<noteq> None"
  shows "\<exists>x. refresh_symbol e sd symbol = sd(symbol \<mapsto> record_price st (now e) (PFloat x))"
  using assms
  by (cases "quote e")
     (auto simp add: refresh_symbol_def fetch_or_mock_def generate_mock_price_def Let_def)

lemma current_price_record_price: "current_price (record_price st t p) = Some p"
  by (simp add: record_price_def Let_def)

lemma refresh_times_Cons:
  "refresh_times sd symbol (e # es) = refresh_times (refresh_symbol e sd symbol) symbol es"
  by (simp add: refresh_times_def)

lemma refresh_times_tracked:
  assumes "sd symbol = Some st" and "current_price st \<noteq> None"
  shows "\<exists>ps. length ps = length es
            \<and> refresh_times sd symbol es symbol = Some (record_prices st (zip (map now es) ps))"
  using assms
proof (induction es arbitrary: sd st)
  case Nil
  then show ?case by (simp add: refresh_times_def record_prices_def)
next
  case (Cons e es)
  from Cons.prems(2) have "quote e \<noteq> None \<or> current_price st \<noteq> None" by simp
  from refresh_symbol_tracked [where sd = sd and symbol = symbol and e = e, OF Cons.prems(1) this]
  obtain p where p: "refresh_symbol e sd symbol = sd(symbol \<mapsto> record_price st (now e) (PFloat p))"
    by blast
  let ?st = "record_price st (now e) (PFloat p)"
  have a: "(sd(symbol \<mapsto> ?st)) symbol = Some ?st"
    by simp
  have b: "current_price ?st \<noteq> None"
    by (simp add: current_price_record_price)
  from Cons.IH [where sd = "sd(symbol \<mapsto> ?st)", OF a b] obtain ps where ps: "length ps = length es"
    "refresh_times (sd(symbol \<mapsto> ?st)) symbol es symbol
       = Some (record_prices ?st (zip (map now es) ps))" by blast
  show ?case
    by (rule exI [of _ "p # ps"]) (simp add: ps p refresh_times_Cons record_prices_def)
qed

lemma refresh_times_thirty:
  assumes "sd symbol = Some st" and "current_price st \<noteq> None" and "length es = 30"
  shows "\<exists>hs. map_option history (refresh_times sd symbol es symbol) = Some (Some hs)
            \<and> length hs = 24 \<and> map h_time hs = drop 6 (map now es)"
proof -
  from refresh_times_tracked [where sd = sd and symbol = symbol and es = es, OF assms(1,2)]
  obtain ps where ps: "length ps = length es"
    "refresh_times sd symbol es symbol = Some (record_prices st (zip (map now es) ps))" by blast
  with assms(3) have "length (zip (map now es) ps) = 30" by simp
  from history_after_thirty [OF this, of st] have
    h: "history (record_prices st (zip (map now es) ps)) = Some (drop 6 (map entry (zip (map now es) ps)))" .
  have "map h_time (map entry (zip (map now es) ps)) = map now es"
    using ps(1) by (simp add: entry_def comp_def)
  then have "map h_time (drop 6 (map entry (zip (map now es) ps))) = drop 6 (map now es)"
    by (simp add: drop_map [symmetric])
  with h ps assms(3) show ?thesis by simp
qed

lemma length_keep_last: "length (keep_last n xs) \<le> n"
  by (simp add: keep_last_def)

lemma last_keep_last: "0 < n \<Longrightarrow> last (keep_last n (xs @ [x])) = x"
  by (simp add: keep_last_def)

text \<open>
  Claim C6. A refresh of a tracked symbol records some price \<open>p\<close> whenever the provider
  answers or the record has a current price for the mock generator to start from. Recording a price appends the entry (timestamp, price) to the history and keeps
  the last 24 entries of the result: the new history has at most 24 entries and ends with
  the new one. After 30 updates of one record, whatever its history was, the history is
  updates 7 to 30 in order; and after 30 refresh cycles of one symbol the history has 24
  entries whose timestamps are those of cycles 7 to 30.
\<close>

theorem history_keeps_last_24:
  "(sd symbol = Some st \<and> (quote e \<noteq> None \<or> current_price st \<noteq> None) \<longrightarrow>
      (\<exists>p. refresh_symbol e sd symbol = sd(symbol \<mapsto> record_price st (now e) p)))
   \<and> history (record_price st t p) = Some (keep_last 24 (entries st @ [entry (t, num_val p)]))
   \<and> length (entries (record_price st t p)) \<le> 24
   \<and> last (entries (record_price st t p)) = entry (t, num_val p)
   \<and> (length ups = 30 \<longrightarrow> history (record_prices st ups) = Some (drop 6 (map entry ups)))
   \<and> (sd symbol = Some st \<and> current_price st \<noteq> None \<and> length es = 30 \<longrightarrow>
        (\<exists>hs. map_option history (refresh_times sd symbol es symbol) = Some (Some hs)
             \<and> length hs = 24 \<and> map h_time hs = drop 6 (map now es)))"
proof -
  have a: "sd symbol = Some st \<and> (quote e \<noteq> None \<or> current_price st \<noteq> None) \<longrightarrow>
      (\<exists>p. refresh_symbol e sd symbol = sd(symbol \<mapsto> record_price st (now e) p))"
    using refresh_symbol_tracked [where sd = sd and symbol = symbol and st = st and e = e]
    by blast
  show ?thesis
    using a refresh_times_thirty [where sd = sd and symbol = symbol and st = st and es = es]
      history_after_thirty [of ups st]
    by (simp add: history_record_price entries_record_price length_keep_last last_keep_last)
qed

theorem history_keeps_last_24_witness:
  "[''AAPL'' \<mapsto> full_stock 150] ''AAPL'' = Some (full_stock 150)
   \<and> current_price (full_stock 150) \<noteq> None
   \<and> length thirty_updates = 30
   \<and> length thirty_ticks = 30
   \<and> map_option (map h_price) (history (record_prices (full_stock 150) thirty_updates))
       = Some (map real [7..<31])
   \<and> (\<exists>hs. map_option history
               (refresh_times [''AAPL'' \<mapsto> full_stock 150] ''AAPL'' thirty_ticks ''AAPL'')
             = Some (Some hs)
          \<and> length hs = 24 \<and> map h_time hs = map (\<lambda>n. replicate n CHR ''.'') [7..<31])"
proof -
  have h1: "[''AAPL'' \<mapsto> full_stock 150] ''AAPL'' = Some (full_stock 150)" by simp
  have h2: "current_price (full_stock 150) \<noteq> None" by (simp add: full_stock_def)
  have h3: "length thirty_updates = 30" by (simp add: thirty_updates_def)
  have h4: "length thirty_ticks = 30" by (simp add: thirty_ticks_def)
  have v1: "map h_price (drop 6 (map entry thirty_updates)) = map real [7..<31]"
    by (simp add: thirty_updates_def entry_def drop_map comp_def)
  have v2: "drop 6 (map now thirty_ticks) = map (\<lambda>n. replicate n CHR ''.'') [7..<31]"
    by (simp add: thirty_ticks_def drop_map comp_def)
  note inst = history_keeps_last_24 [where sd = "[''AAPL'' \<mapsto> full_stock 150]"
      and symbol = "''AAPL''" and st = "full_stock 150" and ups = thirty_updates
      and es = thirty_ticks]
  from inst h3 have "history (record_prices (full_stock 150) thirty_updates)
      = Some (drop 6 (map entry thirty_updates))" by blast
  then have c1: "map_option (map h_price) (history (record_prices (full_stock 150) thirty_updates))
      = Some (map real [7..<31])" by (simp only: v1 option.map)
  from inst h1 h2 h4 have "\<exists>hs. map_option history
        (refresh_times [''AAPL'' \<mapsto> full_stock 150] ''AAPL'' thirty_ticks ''AAPL'') = Some (Some hs)
      \<and> length hs = 24 \<and> map h_time hs = drop 6 (map now thirty_ticks)" by blast
  then have c2: "\<exists>hs. map_option history
        (refresh_times [''AAPL'' \<mapsto> full_stock 150] ''AAPL'' thirty_ticks ''AAPL'') = Some (Some hs)
      \<and> length hs = 24 \<and> map h_time hs = map (\<lambda>n. replicate n CHR ''.'') [7..<31]"
    by (simp only: v2)
  from h1 h2 h3 h4 c1 c2 show ?thesis by blast
qed

subsection \<open>The percent change\<close>







subsection \<open>Saving and loading\<close>

text \<open>
  Claim C8. When both writes of \<^verbatim>\<open>save_data\<close> succeed and the JSON decoder gives back the
  two dictionaries that the encoder was given, \<^verbatim>\<open>save_data\<close> returns normally and a
  later \<^verbatim>\<open>load_data\<close>, whatever the dictionaries hold when it runs (both are empty in a
  new process), sets them to the saved ledger and catalog.
\<close>

theorem save_load_roundtrip:
  assumes "writes_ok e"
      and "load_users j (dump_users j (users_data s)) = Some (users_data s)"
      and "load_stocks j (dump_stocks j (stocks_data s)) = Some (stocks_data s)"
  shows "fst (save_data j e s) = None
       \<and> users_data (load_data j ((snd (save_data j e s))\<lparr>users_data := u0, stocks_data := c0\<rparr>))
           = users_data s
       \<and> stocks_data (load_data j ((snd (save_data j e s))\<lparr>users_data := u0, stocks_data := c0\<rparr>))
           = stocks_data s"
  using assms by (simp add: save_data_def load_data_def writes_ok_def Let_def)

theorem save_load_roundtrip_witness:
  "writes_ok calm
   \<and> load_users tagged_json
        (dump_users tagged_json (users_data (demo_state [''AAPL'' \<mapsto> full_stock 150])))
       = Some (users_data (demo_state [''AAPL'' \<mapsto> full_stock 150]))
   \<and> load_stocks tagged_json
        (dump_stocks tagged_json (stocks_data (demo_state [''AAPL'' \<mapsto> full_stock 150])))
       = Some (stocks_data (demo_state [''AAPL'' \<mapsto> full_stock 150]))
   \<and> fst (save_data tagged_json calm (demo_state [''AAPL'' \<mapsto> full_stock 150])) = None
   \<and> users_data (load_data tagged_json
         ((snd (save_data tagged_json calm (demo_state [''AAPL'' \<mapsto> full_stock 150])))
            \<lparr>users_data := Map.empty, stocks_data := Map.empty\<rparr>))
       = [''u1'' \<mapsto> fresh_account]
   \<and> stocks_data (load_data tagged_json
         ((snd (save_data tagged_json calm (demo_state [''AAPL'' \<mapsto> full_stock 150])))
            \<lparr>users_data := Map.empty, stocks_data := Map.empty\<rparr>))
       = [''AAPL'' \<mapsto> full_stock 150]"
proof -
  let ?s = "demo_state [''AAPL'' \<mapsto> full_stock 150]"
  have h1: "writes_ok calm" by (simp add: writes_ok_def calm_def)
  have h2: "load_users tagged_json (dump_users tagged_json (users_data ?s)) = Some (users_data ?s)"
    by (simp add: tagged_json_def)
  have h3: "load_stocks tagged_json (dump_stocks tagged_json (stocks_data ?s)) = Some (stocks_data ?s)"
    by (simp add: tagged_json_def)
  have v: "users_data ?s = [''u1'' \<mapsto> fresh_account] \<and> stocks_data ?s = [''AAPL'' \<mapsto> full_stock 150]"
    by (simp add: demo_state_def)
  show ?thesis
    using h1 h2 h3 v save_load_roundtrip [OF h1 h2 h3, of Map.empty Map.empty]
    by simp
qed

text \<open>
  Claim C9, as amended. \<^verbatim>\<open>save_data\<close> never changes the dictionaries. It writes the users
  file and then the stocks file, as two separate writes with no exception handler: it
  returns normally exactly when both writes succeed, and then each file holds the dump of
  its dictionary. A failing first write stops it before the stocks file is touched; a
  failing second write leaves the users file already replaced. Any failure raises
  \<^verbatim>\<open>OSError\<close> out of \<^verbatim>\<open>save_data\<close> and out of the command that called it, whose reply is
  then never sent, while the order it had accepted stays applied in memory.
\<close>

theorem save_data_two_writes:
  "users_data (snd (save_data j e s)) = users_data s
   \<and> stocks_data (snd (save_data j e s)) = stocks_data s
   \<and> fst (save_data j e s) = (if writes_ok e then None else Some OSError)
   \<and> users_file (snd (save_data j e s)) =
       (case users_write e of
          Write_Ok \<Rightarrow> Some (dump_users j (users_data s))
        | Open_Fails \<Rightarrow> users_file s
        | Dump_Fails part \<Rightarrow> Some part)
   \<and> stocks_file (snd (save_data j e s)) =
       (case users_write e of
          Write_Ok \<Rightarrow>
            (case stocks_write e of
               Write_Ok \<Rightarrow> Some (dump_stocks j (stocks_data s))
             | Open_Fails \<Rightarrow> stocks_file s
             | Dump_Fails part \<Rightarrow> Some part)
        | Open_Fails \<Rightarrow> stocks_file s
        | Dump_Fails part \<Rightarrow> stocks_file s)
   \<and> (users_data s user_id = Some acct \<and> stocks_data s (upper symbol) = Some st
        \<and> 1 \<le> shares \<and> price_or_zero st * real_of_int shares \<le> balance acct
        \<and> float_range_ok st shares \<and> \<not> writes_ok e \<longrightarrow>
          fst (buy j e s user_id symbol shares) = Raised OSError
        \<and> map_option balance (users_data (snd (buy j e s user_id symbol shares)) user_id)
            = Some (balance acct - price_or_zero st * real_of_int shares)
        \<and> map_option (\<lambda>a. portfolio a (upper symbol))
             (users_data (snd (buy j e s user_id symbol shares)) user_id)
            = Some (Some (owned_shares acct (upper symbol) + shares)))"
proof -
  have mem: "users_data (snd (save_data j e s)) = users_data s
      \<and> stocks_data (snd (save_data j e s)) = stocks_data s"
    by (rule save_data_memory)
  have err: "fst (save_data j e s) = (if writes_ok e then None else Some OSError)"
    by (rule save_data_error)
  have files: "users_file (snd (save_data j e s)) =
       (case users_write e of
          Write_Ok \<Rightarrow> Some (dump_users j (users_data s))
        | Open_Fails \<Rightarrow> users_file s
        | Dump_Fails part \<Rightarrow> Some part)
   \<and> stocks_file (snd (save_data j e s)) =
       (case users_write e of
          Write_Ok \<Rightarrow>
            (case stocks_write e of
               Write_Ok \<Rightarrow> Some (dump_stocks j (stocks_data s))
             | Open_Fails \<Rightarrow> stocks_file s
             | Dump_Fails part \<Rightarrow> Some part)
        | Open_Fails \<Rightarrow> stocks_file s
        | Dump_Fails part \<Rightarrow> stocks_file s)"
    by (simp add: save_data_def Let_def split: write_outcome.splits)
  have cmd: "users_data s user_id = Some acct \<and> stocks_data s (upper symbol) = Some st
        \<and> 1 \<le> shares \<and> price_or_zero st * real_of_int shares \<le> balance acct
        \<and> float_range_ok st shares \<and> \<not> writes_ok e \<longrightarrow>
          fst (buy j e s user_id symbol shares) = Raised OSError
        \<and> map_option balance (users_data (snd (buy j e s user_id symbol shares)) user_id)
            = Some (balance acct - price_or_zero st * real_of_int shares)
        \<and> map_option (\<lambda>a. portfolio a (upper symbol))
             (users_data (snd (buy j e s user_id symbol shares)) user_id)
            = Some (Some (owned_shares acct (upper symbol) + shares))"
    by (simp add: buy_accepted save_then_send_memory save_then_send_outcome)
  from mem err files cmd show ?thesis by blast
qed

theorem save_data_two_writes_witness:
  "users_data (demo_state [''AAPL'' \<mapsto> full_stock 150]) ''u1'' = Some fresh_account
   \<and> stocks_data (demo_state [''AAPL'' \<mapsto> full_stock 150]) (upper ''AAPL'') = Some (full_stock 150)
   \<and> (1::int) \<le> 10
   \<and> price_or_zero (full_stock 150) * real_of_int 10 \<le> balance fresh_account
   \<and> float_range_ok (full_stock 150) 10
   \<and> \<not> writes_ok (calm\<lparr>stocks_write := Open_Fails\<rparr>)
   \<and> fst (buy tagged_json (calm\<lparr>stocks_write := Open_Fails\<rparr>)
            (demo_state [''AAPL'' \<mapsto> full_stock 150]) ''u1'' ''AAPL'' 10) = Raised OSError
   \<and> map_option balance
        (users_data (snd (buy tagged_json (calm\<lparr>stocks_write := Open_Fails\<rparr>)
            (demo_state [''AAPL'' \<mapsto> full_stock 150]) ''u1'' ''AAPL'' 10)) ''u1'') = Some 8500
   \<and> map_option (\<lambda>a. portfolio a ''AAPL'')
        (users_data (snd (buy tagged_json (calm\<lparr>stocks_write := Open_Fails\<rparr>)
            (demo_state [''AAPL'' \<mapsto> full_stock 150]) ''u1'' ''AAPL'' 10)) ''u1'') = Some (Some 10)"
proof -
  let ?s = "demo_state [''AAPL'' \<mapsto> full_stock 150]"
  let ?e = "calm\<lparr>stocks_write := Open_Fails\<rparr>"
  have h1: "users_data ?s ''u1'' = Some fresh_account" by (simp add: demo_defs)
  have h2: "stocks_data ?s (upper ''AAPL'') = Some (full_stock 150)" by (simp add: demo_defs)
  have h3: "(1::int) \<le> 10" by simp
  have h4: "price_or_zero (full_stock 150) * real_of_int 10 \<le> balance fresh_account"
    by (simp add: demo_defs)
  have h5: "\<not> writes_ok ?e" by (simp add: writes_ok_def calm_def)
  have h6: "float_range_ok (full_stock 150) 10"
    by (simp add: float_range_ok_def demo_defs small_below_limit)
  have u: "upper ''AAPL'' = ''AAPL''" by (simp add: upper_def upper_char_def)
  have v: "balance fresh_account - price_or_zero (full_stock 150) * real_of_int 10 = 8500"
    "owned_shares fresh_account ''AAPL'' + 10 = 10"
    by (simp_all add: demo_defs)
  note inst = save_data_two_writes [where s = ?s and user_id = "''u1''" and acct = fresh_account
      and symbol = "''AAPL''" and st = "full_stock 150" and shares = 10 and e = ?e
      and j = tagged_json]
  from inst h1 h2 h3 h4 h5 h6 have
    "fst (buy tagged_json ?e ?s ''u1'' ''AAPL'' 10) = Raised OSError
     \<and> map_option balance (users_data (snd (buy tagged_json ?e ?s ''u1'' ''AAPL'' 10)) ''u1'')
         = Some (balance fresh_account - price_or_zero (full_stock 150) * real_of_int 10)
     \<and> map_option (\<lambda>a. portfolio a (upper ''AAPL''))
          (users_data (snd (buy tagged_json ?e ?s ''u1'' ''AAPL'' 10)) ''u1'')
         = Some (Some (owned_shares fresh_account (upper ''AAPL'') + 10))"
    by blast
  with h1 h2 h3 h4 h5 h6 show ?thesis unfolding u v by blast
qed

text \<open>
  Claim C9 as stated fails on both counts when the second write cannot open its file:
  the purchase raises \<^verbatim>\<open>OSError\<close> instead of replying, and the users file has been
  replaced while the stocks file is the old one.
\<close>

text \<open>
  Claim C9 as stated fails on both counts when the second write cannot open its file:
  the purchase raises \<^verbatim>\<open>OSError\<close> instead of replying, and the users file has been
  replaced while the stocks file is the old one.
\<close>

theorem save_failure_counterexample:
  "fst (buy tagged_json (calm\<lparr>stocks_write := Open_Fails\<rparr>)
          (demo_state [''AAPL'' \<mapsto> full_stock 150]) ''u1'' ''AAPL'' 10)
     = Raised OSError
   \<and> users_file (snd (buy tagged_json (calm\<lparr>stocks_write := Open_Fails\<rparr>)
           (demo_state [''AAPL'' \<mapsto> full_stock 150]) ''u1'' ''AAPL'' 10))
     \<noteq> users_file (demo_state [''AAPL'' \<mapsto> full_stock 150])
   \<and> stocks_file (snd (buy tagged_json (calm\<lparr>stocks_write := Open_Fails\<rparr>)
           (demo_state [''AAPL'' \<mapsto> full_stock 150]) ''u1'' ''AAPL'' 10))
     = stocks_file (demo_state [''AAPL'' \<mapsto> full_stock 150])"
  by (auto simp add: buy_def demo_defs to_float_small dest: map_upd_eqD1)

subsection \<open>Shares at price zero\<close>










end
